theory Spec2Isabelle
  imports Complex_Main "HOL-Library.Word"
begin

section \<open>Data model\<close>

text \<open>
  Byte strings are \<open>Uint8Array\<close>s. Peer identifiers, multiaddrs and protocol names are
  opaque to the code verified here and are written as strings (the tests build peer
  identifiers from their string form). A connection and a stream are handles of the
  host's connection manager.
\<close>

type_synonym bytes = "8 word list"
type_synonym peer_id = string
type_synonym multiaddr = string
type_synonym connection = nat
type_synonym stream = nat

text \<open>\<open>PeerInfo\<close> of \<open>@libp2p/interfaces/peer-info\<close>: \<open>{ id, multiaddrs, protocols }\<close>.\<close>

record peer_info =
  id' :: peer_id
  multiaddrs :: "multiaddr list"
  protocols :: "string list"

text \<open>The message kinds of the wire protocol, in the order of their field numbers.\<close>

datatype message_type = PUT_VALUE | GET_VALUE | ADD_PROVIDER | GET_PROVIDERS | FIND_NODE | PING

record dht_record =
  rec_key :: bytes
  rec_value :: bytes
  timeReceived :: string

text \<open>
  \<open>Message\<close>: the fields \<open>network.ts\<close> reads are \<open>type\<close>, \<open>closerPeers\<close>,
  \<open>providerPeers\<close> and \<open>record\<close>.
\<close>

record message =
  msg_type :: message_type
  msg_key :: bytes
  msg_record :: "dht_record option"
  closerPeers :: "peer_info list"
  providerPeers :: "peer_info list"

text \<open>A JavaScript \<open>Error\<close>: its message and the \<open>code\<close> property, when it has one.\<close>

datatype error = Error (err_message: string) (err_code: "string option")

text \<open>\<open>errcode(err, code)\<close> of the \<open>err-code\<close> package sets the \<open>code\<close> property.\<close>

fun errcode :: "error \<Rightarrow> string \<Rightarrow> error" where
  "errcode (Error m _) c = Error m (Some c)"

text \<open>
  The query events \<open>network.ts\<close> builds, with the fields it passes to each constructor of
  \<open>query/events.js\<close>. \<open>sendMessage\<close> passes only \<open>from\<close> and \<open>messageType\<close> to
  \<open>peerResponseEvent\<close>, so the other three fields are optional.
\<close>

datatype query_event =
  DIALING_PEER peer_id
| SENDING_QUERY peer_id message_type
| PEER_RESPONSE peer_id message_type "peer_info list option" "peer_info list option"
    "dht_record option"
| QUERY_ERROR peer_id error

definition dialingPeerEvent :: "peer_id \<Rightarrow> query_event" where
  "dialingPeerEvent peer = DIALING_PEER peer"

definition sendingQueryEvent :: "peer_id \<Rightarrow> message_type \<Rightarrow> query_event" where
  "sendingQueryEvent to t = SENDING_QUERY to t"

definition peerResponseEvent ::
  "peer_id \<Rightarrow> message_type \<Rightarrow> peer_info list option \<Rightarrow> peer_info list option \<Rightarrow>
   dht_record option \<Rightarrow> query_event" where
  "peerResponseEvent from messageType closer providers rec =
     PEER_RESPONSE from messageType closer providers rec"

definition queryErrorEvent :: "peer_id \<Rightarrow> error \<Rightarrow> query_event" where
  "queryErrorEvent from err = QUERY_ERROR from err"

section \<open>Effects\<close>

text \<open>
  What a call does to the world outside it is recorded as a trace, in order: the events an
  async generator yields, the calls to the connection manager, the streams obtained, the
  calls of \<open>close()\<close> on a stream (\<open>StreamClosed\<close>, whether the call returns or throws),
  the \<open>peer\<close> events dispatched to listeners, the calls to the registrar and to the
  routing table.
\<close>

datatype handler = RPC_onIncomingStream

datatype action =
  Yield query_event
| OpenConnection peer_id
| NewStream connection string
| StreamOpened stream
| StreamClosed stream
| DispatchPeer peer_info
| Unhandle string
| Handle string handler
| RoutingTableAdd peer_id

text \<open>
  A completed run of an async function or generator: its trace, and how it completed,
  \<open>Inr\<close> a value (the promise resolves, the generator is done) or \<open>Inl\<close> the error it
  threw (the promise rejects). Every promise the code awaits is taken to settle, and a
  generator is iterated to its end.
\<close>

type_synonym 'a run = "action list \<times> (error + 'a)"

definition run_return :: "'a \<Rightarrow> 'a run" where
  "run_return x = ([], Inr x)"

definition run_throw :: "error \<Rightarrow> 'a run" where
  "run_throw e = ([], Inl e)"

definition run_do :: "action \<Rightarrow> unit run" where
  "run_do a = ([a], Inr ())"

text \<open>Sequencing: the second part runs only when the first did not throw.\<close>

definition run_bind :: "'a run \<Rightarrow> ('a \<Rightarrow> 'b run) \<Rightarrow> 'b run" where
  "run_bind m f =
     (case m of
        (t, Inl e) \<Rightarrow> (t, Inl e)
      | (t, Inr x) \<Rightarrow> (case f x of (t', r) \<Rightarrow> (t @ t', r)))"

text \<open>\<open>try { m } catch (err) { h err }\<close>.\<close>

definition run_catch :: "'a run \<Rightarrow> (error \<Rightarrow> 'a run) \<Rightarrow> 'a run" where
  "run_catch m h =
     (case m of
        (t, Inl e) \<Rightarrow> (case h e of (t', r) \<Rightarrow> (t @ t', r))
      | (t, Inr x) \<Rightarrow> (t, Inr x))"

text \<open>
  \<open>try { m } finally { fin }\<close>: the finaliser runs on both exits; when it throws, its
  error replaces the completion of \<open>m\<close>.
\<close>

definition run_finally :: "'a run \<Rightarrow> unit run \<Rightarrow> 'a run" where
  "run_finally m fin =
     (case m of
        (t, r) \<Rightarrow>
          (case fin of
             (t', Inl e) \<Rightarrow> (t @ t', Inl e)
           | (t', Inr _) \<Rightarrow> (t @ t', r)))"

text \<open>The events a run yielded, in order.\<close>

fun events :: "action list \<Rightarrow> query_event list" where
  "events [] = []"
| "events (Yield e # t) = e # events t"
| "events (_ # t) = events t"

text \<open>The \<open>peer\<close> events a run dispatched, in order.\<close>

fun peer_events :: "action list \<Rightarrow> peer_info list" where
  "peer_events [] = []"
| "peer_events (DispatchPeer p # t) = p # peer_events t"
| "peer_events (_ # t) = peer_events t"

text \<open>The streams a run obtained and did not call \<open>close()\<close> on afterwards.\<close>

fun unclosed :: "action list \<Rightarrow> stream list" where
  "unclosed [] = []"
| "unclosed (StreamOpened s # t) =
     (if StreamClosed s \<in> set t then unclosed t else s # unclosed t)"
| "unclosed (_ # t) = unclosed t"

text \<open>The peers for which a run asked the connection manager for a connection.\<close>

fun dialled :: "action list \<Rightarrow> peer_id list" where
  "dialled [] = []"
| "dialled (OpenConnection p # t) = p # dialled t"
| "dialled (_ # t) = dialled t"

section \<open>Iterables and duplex streams\<close>

text \<open>
  An async iterable as the consumer sees it: it ends, delivers an item and goes on, or
  throws.
\<close>

datatype 'a source = Done | Item 'a "'a source" | Fail error

text \<open>\<open>it-first\<close>: the first item, or \<open>undefined\<close> when there is none; nothing after
  the first item is read.\<close>

fun first :: "'a source \<Rightarrow> error + 'a option" where
  "first Done = Inr None"
| "first (Item x _) = Inr (Some x)"
| "first (Fail e) = Inl e"

text \<open>\<open>it-drain\<close>: reads the iterable to its end and discards the items.\<close>

fun drain :: "'a source \<Rightarrow> error + unit" where
  "drain Done = Inr ()"
| "drain (Item _ s) = drain s"
| "drain (Fail e) = Inl e"

text \<open>
  \<open>AbortOptions\<close>: an optional abort signal. A signal is described by when it fires
  relative to the reads of the stream it guards: \<open>Some k\<close> fires once \<open>k\<close> chunks have
  been delivered (\<open>Some 0\<close> is a signal that has already fired), \<open>None\<close> never fires while
  the stream is read.
\<close>

type_synonym abort_signal = "nat option"

record abort_options =
  signal :: "abort_signal option"

definition abortError :: error where
  "abortError = Error ''The operation was aborted'' (Some ''ABORT_ERR'')"

text \<open>
  \<open>abortableDuplex\<close> of \<open>abortable-iterator\<close>, on the reading side: the guarded source
  throws the abort error at the read during which the signal fires.
\<close>

fun abortableSource :: "'a source \<Rightarrow> abort_signal \<Rightarrow> 'a source" where
  "abortableSource s None = s"
| "abortableSource s (Some 0) = Fail abortError"
| "abortableSource (Item x s) (Some (Suc k)) = Item x (abortableSource s (Some k))"
| "abortableSource Done (Some (Suc k)) = Done"
| "abortableSource (Fail e) (Some (Suc k)) = Fail e"

text \<open>
  The collaborators of the network layer, as parameters:
  \<^item> the connection manager's \<open>openConnection\<close> and a connection's \<open>newStream\<close>, each
    resolving or rejecting;
  \<^item> a stream's \<open>close()\<close>, returning or throwing;
  \<^item> a stream as a duplex: what its source delivers once the given chunks have been piped
    into its sink (\<open>it-pipe\<close> surfaces a failing sink as a failing source);
  \<^item> \<open>lp.encode()\<close> and \<open>lp.decode()\<close> of \<open>it-length-prefixed\<close>;
  \<^item> \<open>Message.serialize\<close> and \<open>Message.deserialize\<close>.
\<close>

record env =
  openConnection :: "peer_id \<Rightarrow> abort_options \<Rightarrow> error + connection"
  newStream :: "connection \<Rightarrow> string \<Rightarrow> error + stream"
  close :: "stream \<Rightarrow> error + unit"
  duplex :: "stream \<Rightarrow> bytes list \<Rightarrow> bytes source"
  lp_encode :: "bytes list \<Rightarrow> bytes list"
  lp_decode :: "bytes source \<Rightarrow> bytes source"
  serialize :: "message \<Rightarrow> bytes"
  deserialize :: "bytes \<Rightarrow> error + message"

section \<open>The network layer (network.ts)\<close>

record network =
  net_protocol :: string
  net_running :: bool

record network_init =
  init_protocol :: string
  init_lan :: bool

definition Network_constructor :: "network_init \<Rightarrow> network" where
  "Network_constructor init = \<lparr>net_protocol = init_protocol init, net_running = False\<rparr>"

definition start :: "network \<Rightarrow> network" where
  "start n = (if net_running n then n else n\<lparr>net_running := True\<rparr>)"

definition stop :: "network \<Rightarrow> network" where
  "stop n = n\<lparr>net_running := False\<rparr>"

definition isStarted :: "network \<Rightarrow> bool" where
  "isStarted n = net_running n"

text \<open>
  The stream \<open>_writeMessage\<close> and \<open>_writeReadMessage\<close> work on: the given one, or its
  abortable wrapper when \<open>options.signal\<close> is set.
\<close>

definition guarded :: "env \<Rightarrow> stream \<Rightarrow> abort_options \<Rightarrow> bytes list \<Rightarrow> bytes source" where
  "guarded env stream options chunks =
     (case signal options of
        None \<Rightarrow> duplex env stream chunks
      | Some sig \<Rightarrow> abortableSource (duplex env stream chunks) sig)"

text \<open>
  The decoded frames \<open>_writeReadMessage\<close> reads from: \<open>[msg]\<close> piped through
  \<open>lp.encode()\<close>, the stream and \<open>lp.decode()\<close>.
\<close>

definition response_frames :: "env \<Rightarrow> stream \<Rightarrow> bytes \<Rightarrow> abort_options \<Rightarrow> bytes source" where
  "response_frames env stream msg options =
     lp_decode env (guarded env stream options (lp_encode env [msg]))"

definition ERR_NO_MESSAGE_RECEIVED :: error where
  "ERR_NO_MESSAGE_RECEIVED =
     errcode (Error ''No message received'' None) ''ERR_NO_MESSAGE_RECEIVED''"

text \<open>\<open>_writeMessage\<close>: pipes \<open>[msg]\<close> through \<open>lp.encode()\<close> and the stream into
  \<open>drain\<close>.\<close>

definition writeMessage :: "env \<Rightarrow> stream \<Rightarrow> bytes \<Rightarrow> abort_options \<Rightarrow> unit run" where
  "writeMessage env stream msg options =
     (case drain (guarded env stream options (lp_encode env [msg])) of
        Inl e \<Rightarrow> run_throw e
      | Inr u \<Rightarrow> run_return u)"

text \<open>
  \<open>_writeReadMessage\<close>: the last stage of the pipe takes the first decoded frame and
  throws when there is none; the frame is deserialised, and a \<open>peer\<close> event is dispatched
  for each entry of \<open>closerPeers\<close>, then for each entry of \<open>providerPeers\<close>.
\<close>

definition writeReadMessage :: "env \<Rightarrow> stream \<Rightarrow> bytes \<Rightarrow> abort_options \<Rightarrow> message run" where
  "writeReadMessage env stream msg options =
     (let res =
        (case first (response_frames env stream msg options) of
           Inl e \<Rightarrow> Inl e
         | Inr (Some buf) \<Rightarrow> Inr buf
         | Inr None \<Rightarrow> Inl ERR_NO_MESSAGE_RECEIVED)
      in case res of
           Inl e \<Rightarrow> run_throw e
         | Inr buf \<Rightarrow>
             (case deserialize env buf of
                Inl e \<Rightarrow> run_throw e
              | Inr message \<Rightarrow>
                  (map DispatchPeer (closerPeers message) @
                   map DispatchPeer (providerPeers message), Inr message)))"

text \<open>
  The \<open>try\<close> block of \<open>sendRequest\<close>, with the value the local variable \<open>stream\<close> has
  when the block is left.
\<close>

definition sendRequest_try ::
  "env \<Rightarrow> network \<Rightarrow> peer_id \<Rightarrow> message \<Rightarrow> abort_options \<Rightarrow> stream option \<times> unit run" where
  "sendRequest_try env n to msg options =
     (case openConnection env to options of
        Inl e \<Rightarrow> (None, ([OpenConnection to], Inl e))
      | Inr connection \<Rightarrow>
          (case newStream env connection (net_protocol n) of
             Inl e \<Rightarrow> (None, ([OpenConnection to, NewStream connection (net_protocol n)], Inl e))
           | Inr stream \<Rightarrow>
               (Some stream,
                run_bind
                  ([OpenConnection to, NewStream connection (net_protocol n),
                    StreamOpened stream], Inr ())
                  (\<lambda>_. run_bind (writeReadMessage env stream (serialize env msg) options)
                     (\<lambda>response. run_do (Yield (peerResponseEvent to (msg_type response)
                        (Some (closerPeers response)) (Some (providerPeers response))
                        (msg_record response))))))))"

text \<open>
  The \<open>finally\<close> block of \<open>sendRequest\<close> and \<open>sendMessage\<close>: \<open>stream.close()\<close> is
  called when \<open>stream\<close> has been set. The call stands outside any \<open>catch\<close>: what it
  throws leaves the generator.
\<close>

definition close_if_open :: "env \<Rightarrow> stream option \<Rightarrow> unit run" where
  "close_if_open env stream =
     (case stream of None \<Rightarrow> run_return () | Some s \<Rightarrow> ([StreamClosed s], close env s))"

definition sendRequest :: "env \<Rightarrow> network \<Rightarrow> peer_id \<Rightarrow> message \<Rightarrow> abort_options \<Rightarrow> unit run" where
  "sendRequest env n to msg options =
     (if \<not> net_running n then run_return ()
      else
        run_bind (run_do (Yield (dialingPeerEvent to)))
          (\<lambda>_. run_bind (run_do (Yield (sendingQueryEvent to (msg_type msg))))
             (\<lambda>_. case sendRequest_try env n to msg options of
                     (stream, body) \<Rightarrow>
                       run_finally
                         (run_catch body (\<lambda>err. run_do (Yield (queryErrorEvent to err))))
                         (close_if_open env stream))))"

text \<open>The \<open>try\<close> block of \<open>sendMessage\<close>.\<close>

definition sendMessage_try ::
  "env \<Rightarrow> network \<Rightarrow> peer_id \<Rightarrow> message \<Rightarrow> abort_options \<Rightarrow> stream option \<times> unit run" where
  "sendMessage_try env n to msg options =
     (case openConnection env to options of
        Inl e \<Rightarrow> (None, ([OpenConnection to], Inl e))
      | Inr connection \<Rightarrow>
          (case newStream env connection (net_protocol n) of
             Inl e \<Rightarrow> (None, ([OpenConnection to, NewStream connection (net_protocol n)], Inl e))
           | Inr stream \<Rightarrow>
               (Some stream,
                run_bind
                  ([OpenConnection to, NewStream connection (net_protocol n),
                    StreamOpened stream], Inr ())
                  (\<lambda>_. run_bind (writeMessage env stream (serialize env msg) options)
                     (\<lambda>_. run_do (Yield (peerResponseEvent to (msg_type msg)
                        None None None)))))))"

definition sendMessage :: "env \<Rightarrow> network \<Rightarrow> peer_id \<Rightarrow> message \<Rightarrow> abort_options \<Rightarrow> unit run" where
  "sendMessage env n to msg options =
     (if \<not> net_running n then run_return ()
      else
        run_bind (run_do (Yield (dialingPeerEvent to)))
          (\<lambda>_. run_bind (run_do (Yield (sendingQueryEvent to (msg_type msg))))
             (\<lambda>_. case sendMessage_try env n to msg options of
                     (stream, body) \<Rightarrow>
                       run_finally
                         (run_catch body (\<lambda>err. run_do (Yield (queryErrorEvent to err))))
                         (close_if_open env stream))))"

text \<open>
  The \<open>peer\<close> events as the specification words them, for comparison with what
  \<open>_writeReadMessage\<close> dispatches: one event for every distinct peer mentioned in the
  closer peers or the provider peers of a received message, a peer being known by its
  identifier.
\<close>

definition spec_peer_events :: "message \<Rightarrow> peer_id list" where
  "spec_peer_events m = remdups (map id' (closerPeers m @ providerPeers m))"

text \<open>
  "The stream yields no frame", as the claim about \<open>_writeReadMessage\<close> words it: the
  decoded stream delivers no first frame, because it ends or because it throws.
\<close>

fun yields_no_frame :: "'a source \<Rightarrow> bool" where
  "yields_no_frame (Item _ _) = False"
| "yields_no_frame Done = True"
| "yields_no_frame (Fail _) = True"

section \<open>The DHT root (KadDHT)\<close>

text \<open>
  \<open>KadDHTInit\<close>: every option may be left out. The validators and selectors are merged
  into tables the code verified here never reads, and are left out.
\<close>

record kad_dht_init =
  kBucketSize :: "int option"
  clientMode :: "bool option"
  lan :: "bool option"
  protocolPrefix :: "string option"
  querySelfInterval :: "int option"

text \<open>What the constructor hands to \<open>new RoutingTable\<close> and \<open>new QueryManager\<close>.\<close>

record routing_table_init =
  rt_kBucketSize :: "int option"
  rt_lan :: bool

record query_manager_init =
  disjointPaths :: int
  qm_lan :: "bool option"

record kad_dht =
  dht_protocol :: string
  dht_running :: bool
  dht_kBucketSize :: int
  dht_clientMode :: bool
  dht_lan :: bool
  dht_routingTable :: routing_table_init
  dht_network :: network
  dht_queryManager :: query_manager_init

text \<open>
  The constructor. \<open>Boolean(lan)\<close> is false for a missing flag, \<open>x ?? d\<close> is \<open>d\<close> for a
  missing \<open>x\<close> only, and \<open>Math.ceil(k / 2)\<close> is the ceiling of the quotient.
\<close>

definition KadDHT_constructor :: "kad_dht_init \<Rightarrow> kad_dht" where
  "KadDHT_constructor init =
     (let lan_flag = (case lan init of None \<Rightarrow> False | Some b \<Rightarrow> b);
          protocol =
            (case protocolPrefix init of None \<Rightarrow> ''/ipfs'' | Some p \<Rightarrow> p) @
            (if lan init = Some True then ''/lan'' else []) @ ''/kad/1.0.0'';
          k = (case kBucketSize init of None \<Rightarrow> 20 | Some k \<Rightarrow> k)
      in \<lparr>dht_protocol = protocol,
          dht_running = False,
          dht_kBucketSize = k,
          dht_clientMode = (case clientMode init of None \<Rightarrow> True | Some c \<Rightarrow> c),
          dht_lan = lan_flag,
          dht_routingTable = \<lparr>rt_kBucketSize = kBucketSize init, rt_lan = lan_flag\<rparr>,
          dht_network = Network_constructor \<lparr>init_protocol = protocol, init_lan = lan_flag\<rparr>,
          dht_queryManager =
            \<lparr>disjointPaths = \<lceil>real_of_int k / 2\<rceil>, qm_lan = lan init\<rparr>\<rparr>)"

text \<open>
  The collaborators of the DHT root, as parameters: which multiaddrs count as public and
  which as private, \<open>routingTable.add\<close>, and the registrar's \<open>unhandle\<close> and \<open>handle\<close>,
  each resolving or rejecting.
\<close>

record kad_env =
  isPublic :: "multiaddr \<Rightarrow> bool"
  isPrivate :: "multiaddr \<Rightarrow> bool"
  routingTable_add :: "peer_id \<Rightarrow> error + unit"
  registrar_unhandle :: "string \<Rightarrow> error + unit"
  registrar_handle :: "string \<Rightarrow> handler \<Rightarrow> error + unit"

text \<open>
  Modelled from the spec: \<open>utils.js\<close> (\<open>removePublicAddresses\<close>,
  \<open>removePrivateAddresses\<close>) is not among the source files. By section 6 the LAN variant
  filters public addresses and the WAN variant filters private ones; the peer is otherwise
  unchanged.
\<close>

definition removePublicAddresses :: "kad_env \<Rightarrow> peer_info \<Rightarrow> peer_info" where
  "removePublicAddresses kenv peer =
     peer\<lparr>multiaddrs := filter (\<lambda>a. \<not> isPublic kenv a) (multiaddrs peer)\<rparr>"

definition removePrivateAddresses :: "kad_env \<Rightarrow> peer_info \<Rightarrow> peer_info" where
  "removePrivateAddresses kenv peer =
     peer\<lparr>multiaddrs := filter (\<lambda>a. \<not> isPrivate kenv a) (multiaddrs peer)\<rparr>"

text \<open>The awaited call \<open>routingTable.add(id)\<close>.\<close>

definition call_routingTable_add :: "kad_env \<Rightarrow> peer_id \<Rightarrow> unit run" where
  "call_routingTable_add kenv p = ([RoutingTableAdd p], routingTable_add kenv p)"

definition onPeerConnect :: "kad_env \<Rightarrow> kad_dht \<Rightarrow> peer_info \<Rightarrow> unit run" where
  "onPeerConnect kenv dht peerData =
     (let peerData' =
        (if dht_lan dht then removePublicAddresses kenv peerData
         else removePrivateAddresses kenv peerData)
      in if length (multiaddrs peerData') = 0 then run_return ()
         else run_catch (call_routingTable_add kenv (id' peerData'))
                (\<lambda>err. run_return ()))"

datatype mode = client | server

definition getMode :: "kad_dht \<Rightarrow> mode" where
  "getMode dht = (if dht_clientMode dht then client else server)"

text \<open>
  \<open>setMode\<close>: the instance after the call, and the run. A rejecting \<open>unhandle\<close> leaves
  the mode as it was; \<open>clientMode\<close> is assigned before \<open>handle\<close> is awaited.
\<close>

definition setMode :: "kad_env \<Rightarrow> kad_dht \<Rightarrow> mode \<Rightarrow> kad_dht \<times> unit run" where
  "setMode kenv dht m =
     (case registrar_unhandle kenv (dht_protocol dht) of
        Inl e \<Rightarrow> (dht, ([Unhandle (dht_protocol dht)], Inl e))
      | Inr _ \<Rightarrow>
          (if m = client then
             (dht\<lparr>dht_clientMode := True\<rparr>, ([Unhandle (dht_protocol dht)], Inr ()))
           else
             (dht\<lparr>dht_clientMode := False\<rparr>,
              ([Unhandle (dht_protocol dht), Handle (dht_protocol dht) RPC_onIncomingStream],
               registrar_handle kenv (dht_protocol dht) RPC_onIncomingStream))))"

section \<open>Ping arbitration of the routing table\<close>

text \<open>
  A contact: routing key, peer identifier and the liveness marker. A bucket lists its
  contacts from the oldest to the newest; the table is the list of its buckets.
\<close>

record contact =
  contact_id :: bytes
  peer :: peer_id
  lastSeen :: nat

type_synonym bucket = "contact list"
type_synonym routing_table = "bucket list"

text \<open>\<open>kb.get(id)\<close>, as the tests use it: the contact with that routing key, if any.\<close>

definition kb_get :: "routing_table \<Rightarrow> bytes \<Rightarrow> contact option" where
  "kb_get tbl k = find (\<lambda>c. contact_id c = k) (concat tbl)"

text \<open>
  Modelled from the spec: \<open>routing-table/index.js\<close> (\<open>RoutingTable._onPing\<close>) is not
  among the source files, only its tests are. By section 4.2 the liveness probe opens the
  DHT protocol stream to the peer, writes nothing and closes it; the peer has responded
  when the stream could be opened within the ping timeout.
\<close>

definition ping :: "env \<Rightarrow> string \<Rightarrow> abort_options \<Rightarrow> peer_id \<Rightarrow> bool run" where
  "ping env protocol timeout p =
     (case openConnection env p timeout of
        Inl e \<Rightarrow> ([OpenConnection p], Inr False)
      | Inr connection \<Rightarrow>
          (case newStream env connection protocol of
             Inl e \<Rightarrow> ([OpenConnection p, NewStream connection protocol], Inr False)
           | Inr stream \<Rightarrow>
               ([OpenConnection p, NewStream connection protocol, StreamOpened stream,
                 StreamClosed stream], Inr True)))"

text \<open>
  Modelled from the spec: the arbitration job of section 4.2 on the full bucket
  \<open>old_peers\<close> (oldest first). The oldest contact is pinged. When it responds it is marked
  fresh and moved to newest, and \<open>new_peer\<close> is dropped; when it fails or times out it is
  evicted and \<open>new_peer\<close> takes its place, as the newest contact. A full bucket holds
  \<open>K \<ge> 1\<close> contacts; on an empty list there is nobody to ping and nothing changes.
\<close>

definition arbitrate_bucket ::
  "env \<Rightarrow> string \<Rightarrow> abort_options \<Rightarrow> nat \<Rightarrow> contact \<Rightarrow> bucket \<Rightarrow> bucket" where
  "arbitrate_bucket env protocol timeout now new_peer old_peers =
     (case old_peers of
        [] \<Rightarrow> []
      | oldest # rest \<Rightarrow>
          (if snd (ping env protocol timeout (peer oldest)) = Inr True
           then rest @ [oldest\<lparr>lastSeen := now\<rparr>]
           else rest @ [new_peer]))"

text \<open>Modelled from the spec: the arbitration applied to bucket \<open>i\<close> of the table.\<close>

definition ping_arbitration ::
  "env \<Rightarrow> string \<Rightarrow> abort_options \<Rightarrow> nat \<Rightarrow> nat \<Rightarrow> contact \<Rightarrow> routing_table \<Rightarrow> routing_table" where
  "ping_arbitration env protocol timeout now i new_peer tbl =
     (if i < length tbl
      then tbl[i := arbitrate_bucket env protocol timeout now new_peer (tbl ! i)]
      else tbl)"

section \<open>Example environments\<close>

text \<open>
  The two peers of the routing-table tests, a request, and a response that names the same
  peer as a closer peer and as a provider.
\<close>

definition old_peer_id :: peer_id where
  "old_peer_id = ''QmYobx1VAHP7Mi88LcDvLeQoWcc1Aa2rynYHpdEPBqHZi5''"

definition new_peer_id :: peer_id where
  "new_peer_id = ''QmYobx1VAHP7Mi88LcDvLeQoWcc1Aa2rynYHpdEPBqHZi6''"

definition example_peer :: peer_info where
  "example_peer =
     \<lparr>id' = new_peer_id, multiaddrs = [''/ip4/10.0.0.1/tcp/4001''], protocols = []\<rparr>"

definition example_request :: message where
  "example_request =
     \<lparr>msg_type = FIND_NODE, msg_key = [1, 2], msg_record = None, closerPeers = [],
      providerPeers = []\<rparr>"

definition example_response :: message where
  "example_response =
     \<lparr>msg_type = FIND_NODE, msg_key = [1, 2], msg_record = None,
      closerPeers = [example_peer], providerPeers = [example_peer]\<rparr>"

text \<open>
  An environment in which the old peer can be dialled and every other dial is refused;
  a stream opened to the old peer answers the given frames and closes without an error.
\<close>

definition example_env :: "bytes source \<Rightarrow> env" where
  "example_env reply =
     \<lparr>openConnection =
        (\<lambda>p opts. if p = old_peer_id then Inr 1
                   else Inl (Error ''Could not dial peer'' None)),
      newStream = (\<lambda>c proto. Inr 7),
      close = (\<lambda>s. Inr ()),
      duplex = (\<lambda>s chunks. reply),
      lp_encode = (\<lambda>chunks. chunks),
      lp_decode = (\<lambda>frames. frames),
      serialize = (\<lambda>m. [0]),
      deserialize = (\<lambda>b. Inr example_response)\<rparr>"

definition example_network :: network where
  "example_network =
     start (Network_constructor \<lparr>init_protocol = ''/ipfs/kad/1.0.0'', init_lan = False\<rparr>)"

definition no_signal :: abort_options where
  "no_signal = \<lparr>signal = None\<rparr>"

definition aborted_signal :: abort_options where
  "aborted_signal = \<lparr>signal = Some (Some 0)\<rparr>"

text \<open>
  Collaborators of the DHT root for which an address is private when it is in
  \<open>10.0.0.0/8\<close> (as far as the examples go) and public otherwise, and which never fail.
\<close>

definition example_kad_env :: kad_env where
  "example_kad_env =
     \<lparr>isPublic = (\<lambda>a. take 8 a \<noteq> ''/ip4/10.''),
      isPrivate = (\<lambda>a. take 8 a = ''/ip4/10.''),
      routingTable_add = (\<lambda>p. Inr ()),
      registrar_unhandle = (\<lambda>p. Inr ()),
      registrar_handle = (\<lambda>p h. Inr ())\<rparr>"

definition example_init :: kad_dht_init where
  "example_init =
     \<lparr>kBucketSize = None, clientMode = None, lan = None, protocolPrefix = None,
      querySelfInterval = None\<rparr>"

text \<open>The table of the routing-table tests: one bucket, holding the old peer.\<close>

definition old_contact :: contact where
  "old_contact = \<lparr>contact_id = [5], peer = old_peer_id, lastSeen = 0\<rparr>"

definition new_contact :: contact where
  "new_contact = \<lparr>contact_id = [6], peer = new_peer_id, lastSeen = 0\<rparr>"

text \<open>An environment in which no peer can be dialled.\<close>

definition unreachable_env :: env where
  "unreachable_env =
     (example_env Done)\<lparr>openConnection :=
        (\<lambda>p opts. Inl (Error ''Could not dial peer'' None))\<rparr>"

text \<open>The same environment, with streams whose \<open>close()\<close> throws.\<close>

definition failing_close_env :: "bytes source \<Rightarrow> env" where
  "failing_close_env reply =
     (example_env reply)\<lparr>close := (\<lambda>s. Inl (Error ''Could not close stream'' None))\<rparr>"

text \<open>A stream that is reset by the remote peer before it has delivered anything.\<close>

definition reset_stream :: "bytes source" where
  "reset_stream = Fail (Error ''stream reset'' (Some ''ERR_STREAM_RESET''))"

section \<open>Properties of the network layer\<close>

lemmas run_defs =
  run_return_def run_throw_def run_do_def run_bind_def run_catch_def run_finally_def
  close_if_open_def

lemma events_append: "events (t @ u) = events t @ events u"
  by (induction t rule: events.induct) simp_all

lemma events_dispatch: "events (map DispatchPeer ps @ t) = events t"
  by (induction ps) simp_all

lemma unclosed_dispatch: "unclosed (map DispatchPeer ps @ t) = unclosed t"
  by (induction ps) simp_all

lemma peer_events_dispatch: "peer_events (map DispatchPeer ps) = ps"
  by (induction ps) simp_all

text \<open>The run of \<open>sendRequest\<close> on a started network, exit by exit.\<close>

lemma sendRequest_running:
  "net_running n \<Longrightarrow>
   sendRequest env n to msg options =
     (case openConnection env to options of
        Inl e \<Rightarrow>
          ([Yield (dialingPeerEvent to), Yield (sendingQueryEvent to (msg_type msg)),
            OpenConnection to, Yield (queryErrorEvent to e)], Inr ())
      | Inr c \<Rightarrow>
          (case newStream env c (net_protocol n) of
             Inl e \<Rightarrow>
               ([Yield (dialingPeerEvent to), Yield (sendingQueryEvent to (msg_type msg)),
                 OpenConnection to, NewStream c (net_protocol n),
                 Yield (queryErrorEvent to e)], Inr ())
           | Inr s \<Rightarrow>
               (case writeReadMessage env s (serialize env msg) options of
                  (t, Inl e) \<Rightarrow>
                    ([Yield (dialingPeerEvent to), Yield (sendingQueryEvent to (msg_type msg)),
                      OpenConnection to, NewStream c (net_protocol n), StreamOpened s] @ t @
                     [Yield (queryErrorEvent to e), StreamClosed s], close env s)
                | (t, Inr r) \<Rightarrow>
                    ([Yield (dialingPeerEvent to), Yield (sendingQueryEvent to (msg_type msg)),
                      OpenConnection to, NewStream c (net_protocol n), StreamOpened s] @ t @
                     [Yield (peerResponseEvent to (msg_type r) (Some (closerPeers r))
                        (Some (providerPeers r)) (msg_record r)), StreamClosed s],
                     close env s))))"
  by (simp add: sendRequest_def sendRequest_try_def run_defs
      split: sum.splits option.splits prod.splits)

text \<open>The run of \<open>sendMessage\<close> on a started network, exit by exit.\<close>

lemma sendMessage_running:
  "net_running n \<Longrightarrow>
   sendMessage env n to msg options =
     (case openConnection env to options of
        Inl e \<Rightarrow>
          ([Yield (dialingPeerEvent to), Yield (sendingQueryEvent to (msg_type msg)),
            OpenConnection to, Yield (queryErrorEvent to e)], Inr ())
      | Inr c \<Rightarrow>
          (case newStream env c (net_protocol n) of
             Inl e \<Rightarrow>
               ([Yield (dialingPeerEvent to), Yield (sendingQueryEvent to (msg_type msg)),
                 OpenConnection to, NewStream c (net_protocol n),
                 Yield (queryErrorEvent to e)], Inr ())
           | Inr s \<Rightarrow>
               (case writeMessage env s (serialize env msg) options of
                  (t, Inl e) \<Rightarrow>
                    ([Yield (dialingPeerEvent to), Yield (sendingQueryEvent to (msg_type msg)),
                      OpenConnection to, NewStream c (net_protocol n), StreamOpened s] @ t @
                     [Yield (queryErrorEvent to e), StreamClosed s], close env s)
                | (t, Inr r) \<Rightarrow>
                    ([Yield (dialingPeerEvent to), Yield (sendingQueryEvent to (msg_type msg)),
                      OpenConnection to, NewStream c (net_protocol n), StreamOpened s] @ t @
                     [Yield (peerResponseEvent to (msg_type msg) None None None),
                      StreamClosed s], close env s))))"
  by (simp add: sendMessage_def sendMessage_try_def run_defs
      split: sum.splits option.splits prod.splits)

text \<open>\<open>_writeReadMessage\<close> and \<open>_writeMessage\<close> do nothing but dispatch \<open>peer\<close> events.\<close>

lemma writeReadMessage_trace:
  "\<exists>ps. fst (writeReadMessage env s b options) = map DispatchPeer ps"
  by (simp add: writeReadMessage_def run_defs map_append [symmetric] del: map_append
      split: sum.splits option.splits) blast

lemma writeMessage_trace: "fst (writeMessage env s b options) = []"
  by (simp add: writeMessage_def run_defs split: sum.splits)

lemma example_network_running: "net_running example_network"
  by (simp add: example_network_def start_def Network_constructor_def)

text \<open>
  C10. A network that is not started answers \<open>sendRequest\<close> and \<open>sendMessage\<close> with the
  empty run: nothing is yielded, the connection manager is not asked for a connection, and
  the generator completes without an error. A network is not started when it has just been
  constructed and after \<open>stop()\<close>.
\<close>

theorem not_started_sends_nothing:
  "(\<not> isStarted n \<longrightarrow>
      sendRequest env n to msg options = ([], Inr ()) \<and>
      sendMessage env n to msg options = ([], Inr ()) \<and>
      dialled (fst (sendRequest env n to msg options)) = [] \<and>
      dialled (fst (sendMessage env n to msg options)) = []) \<and>
   \<not> isStarted (Network_constructor init) \<and>
   \<not> isStarted (stop n')"
  by (simp add: sendRequest_def sendMessage_def Network_constructor_def stop_def
      isStarted_def run_return_def)

theorem not_started_sends_nothing_witness:
  "\<not> isStarted (stop example_network) \<and>
   sendRequest (example_env Done) (stop example_network) old_peer_id example_request
     no_signal = ([], Inr ()) \<and>
   sendMessage (example_env Done) (stop example_network) old_peer_id example_request
     no_signal = ([], Inr ())"
proof -
  have h: "\<not> isStarted (stop example_network)"
    by (simp add: isStarted_def stop_def)
  show ?thesis
    using h not_started_sends_nothing [of "stop example_network" "example_env Done"
        old_peer_id example_request no_signal]
    by simp
qed

text \<open>
  C2. On a started network \<open>sendRequest\<close> yields exactly three events, in this order: the
  \<open>dialing_peer\<close> event for the peer, the \<open>sending_query\<close> event for the peer and the
  type of the request, and then exactly one of a \<open>peer_response\<close> event (from the peer,
  with the type, closer peers, provider peers and record of a response message) and a
  \<open>query_error\<close> event (from the peer, with the error). The response message is the one
  \<open>_writeReadMessage\<close> returned on the stream, when it returned one.
\<close>

theorem sendRequest_event_sequence:
  assumes "net_running n"
  shows "\<exists>e. events (fst (sendRequest env n to msg options)) =
           [dialingPeerEvent to, sendingQueryEvent to (msg_type msg), e] \<and>
         ((\<exists>r::message. e = peerResponseEvent to (msg_type r) (Some (closerPeers r))
                  (Some (providerPeers r)) (msg_record r)) \<noteq>
          (\<exists>err. e = queryErrorEvent to err)) \<and>
         (\<forall>c s r. openConnection env to options = Inr c \<and>
            newStream env c (net_protocol n) = Inr s \<and>
            snd (writeReadMessage env s (serialize env msg) options) = Inr r \<longrightarrow>
            e = peerResponseEvent to (msg_type r) (Some (closerPeers r))
                  (Some (providerPeers r)) (msg_record r))"
proof -
  have excl: "peerResponseEvent p t c q r \<noteq> queryErrorEvent p' e" for p t c q r p' e
    by (simp add: peerResponseEvent_def queryErrorEvent_def)
  have wr: "events (t @ u) = events u"
    if "writeReadMessage env s (serialize env msg) options = (t, r)" for s t r u
    using writeReadMessage_trace [of env s "serialize env msg" options] that
    by (auto simp: events_dispatch)
  show ?thesis
    unfolding sendRequest_running [OF assms]
    by (auto simp: wr excl excl [symmetric] split: sum.splits prod.splits)
qed

theorem sendRequest_event_sequence_witness:
  "net_running example_network \<and>
   events (fst (sendRequest (example_env (Item [1] Done)) example_network old_peer_id
     example_request no_signal)) =
     [dialingPeerEvent old_peer_id, sendingQueryEvent old_peer_id FIND_NODE,
      peerResponseEvent old_peer_id FIND_NODE (Some [example_peer]) (Some [example_peer])
        None]"
proof -
  have h: "openConnection (example_env (Item [1] Done)) old_peer_id no_signal = Inr 1 \<and>
      newStream (example_env (Item [1] Done)) 1 (net_protocol example_network) = Inr 7 \<and>
      snd (writeReadMessage (example_env (Item [1] Done)) 7
        (serialize (example_env (Item [1] Done)) example_request) no_signal) =
        Inr example_response"
    by (simp add: writeReadMessage_def response_frames_def guarded_def example_env_def
        no_signal_def run_defs)
  obtain e where e: "events (fst (sendRequest (example_env (Item [1] Done)) example_network
        old_peer_id example_request no_signal)) =
        [dialingPeerEvent old_peer_id, sendingQueryEvent old_peer_id (msg_type example_request), e]"
      "\<forall>c s r. openConnection (example_env (Item [1] Done)) old_peer_id no_signal = Inr c \<and>
            newStream (example_env (Item [1] Done)) c (net_protocol example_network) = Inr s \<and>
            snd (writeReadMessage (example_env (Item [1] Done)) s
              (serialize (example_env (Item [1] Done)) example_request) no_signal) = Inr r \<longrightarrow>
            e = peerResponseEvent old_peer_id (msg_type r) (Some (closerPeers r))
                  (Some (providerPeers r)) (msg_record r)"
    using sendRequest_event_sequence [OF example_network_running,
        of "example_env (Item [1] Done)" old_peer_id example_request no_signal]
    by blast
  have "e = peerResponseEvent old_peer_id (msg_type example_response)
      (Some (closerPeers example_response)) (Some (providerPeers example_response))
      (msg_record example_response)"
    using e(2) h by blast
  then show ?thesis
    using e(1) example_network_running
    by (simp add: example_request_def example_response_def)
qed

text \<open>
  C3, as amended. On a started network an error raised while the connection is opened,
  while the stream is opened, or while the request is written or the response read
  (\<open>_writeReadMessage\<close>, \<open>_writeMessage\<close>) does not leave \<open>sendRequest\<close> or
  \<open>sendMessage\<close>: it ends the event sequence with the \<open>query_error\<close> event for the
  peer and that error. An abort is one of these errors: with a signal that has fired the
  guarded stream throws the abort error, which \<open>_writeMessage\<close> fails with, as
  \<open>_writeReadMessage\<close> does when \<open>lp.decode()\<close> passes the failure of its source on.
  Both generators complete normally whenever \<open>stream.close()\<close> does not throw, and an
  error that leaves one of them is an error thrown by \<open>close()\<close> on the stream it
  opened.
\<close>

theorem io_failures_become_query_errors:
  "(net_running n \<longrightarrow>
     (\<forall>e. openConnection env to options = Inl e \<longrightarrow>
        events (fst (sendRequest env n to msg options)) =
          [dialingPeerEvent to, sendingQueryEvent to (msg_type msg), queryErrorEvent to e] \<and>
        events (fst (sendMessage env n to msg options)) =
          [dialingPeerEvent to, sendingQueryEvent to (msg_type msg), queryErrorEvent to e] \<and>
        snd (sendRequest env n to msg options) = Inr () \<and>
        snd (sendMessage env n to msg options) = Inr ()) \<and>
     (\<forall>c e. openConnection env to options = Inr c \<and>
        newStream env c (net_protocol n) = Inl e \<longrightarrow>
        events (fst (sendRequest env n to msg options)) =
          [dialingPeerEvent to, sendingQueryEvent to (msg_type msg), queryErrorEvent to e] \<and>
        events (fst (sendMessage env n to msg options)) =
          [dialingPeerEvent to, sendingQueryEvent to (msg_type msg), queryErrorEvent to e] \<and>
        snd (sendRequest env n to msg options) = Inr () \<and>
        snd (sendMessage env n to msg options) = Inr ()) \<and>
     (\<forall>c s e. openConnection env to options = Inr c \<and>
        newStream env c (net_protocol n) = Inr s \<and>
        snd (writeReadMessage env s (serialize env msg) options) = Inl e \<longrightarrow>
        events (fst (sendRequest env n to msg options)) =
          [dialingPeerEvent to, sendingQueryEvent to (msg_type msg), queryErrorEvent to e] \<and>
        snd (sendRequest env n to msg options) = close env s) \<and>
     (\<forall>c s e. openConnection env to options = Inr c \<and>
        newStream env c (net_protocol n) = Inr s \<and>
        snd (writeMessage env s (serialize env msg) options) = Inl e \<longrightarrow>
        events (fst (sendMessage env n to msg options)) =
          [dialingPeerEvent to, sendingQueryEvent to (msg_type msg), queryErrorEvent to e] \<and>
        snd (sendMessage env n to msg options) = close env s)) \<and>
   (\<forall>e. snd (sendRequest env n to msg options) = Inl e \<longrightarrow>
      (\<exists>s. StreamOpened s \<in> set (fst (sendRequest env n to msg options)) \<and>
           close env s = Inl e)) \<and>
   (\<forall>e. snd (sendMessage env n to msg options) = Inl e \<longrightarrow>
      (\<exists>s. StreamOpened s \<in> set (fst (sendMessage env n to msg options)) \<and>
           close env s = Inl e)) \<and>
   ((\<forall>s. close env s = Inr ()) \<longrightarrow>
      snd (sendRequest env n to msg options) = Inr () \<and>
      snd (sendMessage env n to msg options) = Inr ()) \<and>
   (signal options = Some (Some 0) \<longrightarrow>
      snd (writeMessage env s' b options) = Inl abortError \<and>
      (lp_decode env (Fail abortError) = Fail abortError \<longrightarrow>
         snd (writeReadMessage env s' b options) = Inl abortError))"
proof -
  have wr: "events (t @ u) = events u"
    if "writeReadMessage env s (serialize env msg) options = (t, r)" for s t r u
    using writeReadMessage_trace [of env s "serialize env msg" options] that
    by (auto simp: events_dispatch)
  have wm: "events (t @ u) = events u"
    if "writeMessage env s (serialize env msg) options = (t, r)" for s t r u
    using writeMessage_trace [of env s "serialize env msg" options] that by simp
  have idle: "\<not> net_running n \<Longrightarrow>
      sendRequest env n to msg options = ([], Inr ()) \<and>
      sendMessage env n to msg options = ([], Inr ())"
    by (simp add: sendRequest_def sendMessage_def run_defs)
  have t1: "\<exists>s. StreamOpened s \<in> set (fst (sendRequest env n to msg options)) \<and>
      close env s = Inl e"
    if "snd (sendRequest env n to msg options) = Inl e" for e
    using that
    by (cases "net_running n")
      (auto simp: sendRequest_running idle split: sum.splits prod.splits)
  have t2: "\<exists>s. StreamOpened s \<in> set (fst (sendMessage env n to msg options)) \<and>
      close env s = Inl e"
    if "snd (sendMessage env n to msg options) = Inl e" for e
    using that
    by (cases "net_running n")
      (auto simp: sendMessage_running idle split: sum.splits prod.splits)
  have ok: "snd (sendRequest env n to msg options) = Inr () \<and>
      snd (sendMessage env n to msg options) = Inr ()"
    if c: "\<forall>s. close env s = Inr ()"
  proof -
    have "snd (sendRequest env n to msg options) = Inr ()"
      using t1 c by (cases "snd (sendRequest env n to msg options)") auto
    moreover have "snd (sendMessage env n to msg options) = Inr ()"
      using t2 c by (cases "snd (sendMessage env n to msg options)") auto
    ultimately show ?thesis by simp
  qed
  have ab1: "snd (writeMessage env s' b options) = Inl abortError"
    if "signal options = Some (Some 0)"
    using that by (simp add: writeMessage_def guarded_def run_defs)
  have ab2: "snd (writeReadMessage env s' b options) = Inl abortError"
    if "signal options = Some (Some 0)" "lp_decode env (Fail abortError) = Fail abortError"
    using that by (simp add: writeReadMessage_def response_frames_def guarded_def run_defs)
  have dial: "events (fst (sendRequest env n to msg options)) =
          [dialingPeerEvent to, sendingQueryEvent to (msg_type msg), queryErrorEvent to e] \<and>
        events (fst (sendMessage env n to msg options)) =
          [dialingPeerEvent to, sendingQueryEvent to (msg_type msg), queryErrorEvent to e] \<and>
        snd (sendRequest env n to msg options) = Inr () \<and>
        snd (sendMessage env n to msg options) = Inr ()"
    if "net_running n" "openConnection env to options = Inl e" for e
    using that by (simp add: sendRequest_running sendMessage_running)
  have refused: "events (fst (sendRequest env n to msg options)) =
          [dialingPeerEvent to, sendingQueryEvent to (msg_type msg), queryErrorEvent to e] \<and>
        events (fst (sendMessage env n to msg options)) =
          [dialingPeerEvent to, sendingQueryEvent to (msg_type msg), queryErrorEvent to e] \<and>
        snd (sendRequest env n to msg options) = Inr () \<and>
        snd (sendMessage env n to msg options) = Inr ()"
    if "net_running n" "openConnection env to options = Inr c"
      "newStream env c (net_protocol n) = Inl e" for c e
    using that by (simp add: sendRequest_running sendMessage_running)
  have request: "events (fst (sendRequest env n to msg options)) =
          [dialingPeerEvent to, sendingQueryEvent to (msg_type msg), queryErrorEvent to e] \<and>
        snd (sendRequest env n to msg options) = close env s"
    if "net_running n" "openConnection env to options = Inr c"
      "newStream env c (net_protocol n) = Inr s"
      "snd (writeReadMessage env s (serialize env msg) options) = Inl e" for c s e
    using that
    by (auto simp: sendRequest_running wr split: sum.splits prod.splits)
  have message: "events (fst (sendMessage env n to msg options)) =
          [dialingPeerEvent to, sendingQueryEvent to (msg_type msg), queryErrorEvent to e] \<and>
        snd (sendMessage env n to msg options) = close env s"
    if "net_running n" "openConnection env to options = Inr c"
      "newStream env c (net_protocol n) = Inr s"
      "snd (writeMessage env s (serialize env msg) options) = Inl e" for c s e
    using that
    by (auto simp: sendMessage_running wm split: sum.splits prod.splits)
  show ?thesis
    using dial refused request message t1 t2 ok ab1 ab2 by blast
qed

theorem io_failures_become_query_errors_witness:
  "net_running example_network \<and>
   openConnection (example_env Done) new_peer_id aborted_signal =
     Inl (Error ''Could not dial peer'' None) \<and>
   events (fst (sendRequest (example_env Done) example_network new_peer_id example_request
     aborted_signal)) =
     [dialingPeerEvent new_peer_id, sendingQueryEvent new_peer_id FIND_NODE,
      queryErrorEvent new_peer_id (Error ''Could not dial peer'' None)] \<and>
   snd (sendRequest (example_env Done) example_network new_peer_id example_request
     aborted_signal) = Inr () \<and>
   signal aborted_signal = Some (Some 0) \<and>
   snd (writeMessage (example_env Done) 7 [0] aborted_signal) = Inl abortError \<and>
   snd (sendMessage (example_env Done) example_network old_peer_id example_request
     aborted_signal) = Inr ()"
proof -
  have h1: "openConnection (example_env Done) new_peer_id aborted_signal =
      Inl (Error ''Could not dial peer'' None)"
    by (simp add: example_env_def new_peer_id_def old_peer_id_def)
  have h2: "signal aborted_signal = Some (Some 0)"
    by (simp add: aborted_signal_def)
  have h3: "\<forall>s. close (example_env Done) s = Inr ()"
    by (simp add: example_env_def)
  show ?thesis
    using io_failures_become_query_errors [of example_network "example_env Done" new_peer_id
        aborted_signal example_request 7 "[0]"]
      io_failures_become_query_errors [of example_network "example_env Done" old_peer_id
        aborted_signal example_request 7 "[0]"]
      example_network_running h1 h2 h3
    by (simp add: example_request_def)
qed

text \<open>
  C3, as claimed, fails in its last part: when \<open>close()\<close> throws on the stream that was
  opened, the error leaves the generator after the last event, for \<open>sendRequest\<close> after
  a response as for \<open>sendMessage\<close> after a failed write.
\<close>

theorem generator_never_throws_counterexample:
  "net_running example_network \<and>
   events (fst (sendRequest (failing_close_env (Item [1] Done)) example_network old_peer_id
     example_request no_signal)) =
     [dialingPeerEvent old_peer_id, sendingQueryEvent old_peer_id FIND_NODE,
      peerResponseEvent old_peer_id FIND_NODE (Some [example_peer]) (Some [example_peer])
        None] \<and>
   snd (sendRequest (failing_close_env (Item [1] Done)) example_network old_peer_id
     example_request no_signal) = Inl (Error ''Could not close stream'' None) \<and>
   events (fst (sendMessage (failing_close_env reset_stream) example_network old_peer_id
     example_request no_signal)) =
     [dialingPeerEvent old_peer_id, sendingQueryEvent old_peer_id FIND_NODE,
      queryErrorEvent old_peer_id (Error ''stream reset'' (Some ''ERR_STREAM_RESET''))] \<and>
   snd (sendMessage (failing_close_env reset_stream) example_network old_peer_id
     example_request no_signal) = Inl (Error ''Could not close stream'' None)"
  by (simp add: example_network_running sendRequest_running [OF example_network_running]
      sendMessage_running [OF example_network_running] failing_close_env_def example_env_def
      writeReadMessage_def writeMessage_def response_frames_def guarded_def no_signal_def
      reset_stream_def run_defs example_request_def example_response_def)

text \<open>
  C5. When \<open>sendRequest\<close> or \<open>sendMessage\<close> completes, no stream it obtained is left
  open, on any exit: whenever a stream was opened, closing it is the last thing the run
  does, after the last event has been yielded. A stream is obtained whenever the
  network is started and both the dial and \<open>newStream\<close> succeed, whether the exchange
  then succeeds, fails or is aborted.
\<close>

theorem streams_closed:
  "unclosed (fst (sendRequest env n to msg options)) = [] \<and>
   unclosed (fst (sendMessage env n to msg options)) = [] \<and>
   (\<forall>s. StreamOpened s \<in> set (fst (sendRequest env n to msg options)) \<longrightarrow>
      last (fst (sendRequest env n to msg options)) = StreamClosed s) \<and>
   (\<forall>s. StreamOpened s \<in> set (fst (sendMessage env n to msg options)) \<longrightarrow>
      last (fst (sendMessage env n to msg options)) = StreamClosed s) \<and>
   (\<forall>c s. net_running n \<and> openConnection env to options = Inr c \<and>
      newStream env c (net_protocol n) = Inr s \<longrightarrow>
      StreamOpened s \<in> set (fst (sendRequest env n to msg options)) \<and>
      StreamOpened s \<in> set (fst (sendMessage env n to msg options)))"
proof -
  have wr: "unclosed (t @ u) = unclosed u \<and> StreamOpened s' \<notin> set t"
    if "writeReadMessage env s (serialize env msg) options = (t, r)" for s s' t r u
    using writeReadMessage_trace [of env s "serialize env msg" options] that
    by (auto simp: unclosed_dispatch)
  have wm: "t = []"
    if "writeMessage env s (serialize env msg) options = (t, r)" for s t r
    using writeMessage_trace [of env s "serialize env msg" options] that by simp
  have idle: "\<not> net_running n \<Longrightarrow>
      fst (sendRequest env n to msg options) = [] \<and>
      fst (sendMessage env n to msg options) = []"
    by (simp add: sendRequest_def sendMessage_def run_defs)
  have r1: "unclosed (fst (sendRequest env n to msg options)) = []"
    by (cases "net_running n")
      (auto simp: sendRequest_running wr idle split: sum.splits prod.splits)
  have r2: "unclosed (fst (sendMessage env n to msg options)) = []"
    by (cases "net_running n")
      (auto simp: sendMessage_running idle dest: wm split: sum.splits prod.splits)
  have r3: "last (fst (sendRequest env n to msg options)) = StreamClosed s"
    if "StreamOpened s \<in> set (fst (sendRequest env n to msg options))" for s
    using that
    by (cases "net_running n")
      (auto simp: sendRequest_running wr idle split: sum.splits prod.splits)
  have r4: "last (fst (sendMessage env n to msg options)) = StreamClosed s"
    if "StreamOpened s \<in> set (fst (sendMessage env n to msg options))" for s
    using that
    by (cases "net_running n")
      (auto simp: sendMessage_running idle dest: wm split: sum.splits prod.splits)
  have r5: "StreamOpened s \<in> set (fst (sendRequest env n to msg options)) \<and>
      StreamOpened s \<in> set (fst (sendMessage env n to msg options))"
    if "net_running n" "openConnection env to options = Inr c"
      "newStream env c (net_protocol n) = Inr s" for c s
    using that
    by (auto simp: sendRequest_running sendMessage_running split: sum.splits prod.splits)
  show ?thesis
    using r1 r2 r3 r4 r5 by blast
qed

theorem streams_closed_witness:
  "net_running example_network \<and>
   openConnection (example_env Done) old_peer_id aborted_signal = Inr 1 \<and>
   newStream (example_env Done) 1 (net_protocol example_network) = Inr 7 \<and>
   StreamOpened 7 \<in> set (fst (sendRequest (example_env Done) example_network old_peer_id
     example_request aborted_signal)) \<and>
   last (fst (sendRequest (example_env Done) example_network old_peer_id
     example_request aborted_signal)) = StreamClosed 7 \<and>
   unclosed (fst (sendRequest (example_env Done) example_network old_peer_id
     example_request aborted_signal)) = []"
proof -
  have h1: "openConnection (example_env Done) old_peer_id aborted_signal = Inr 1"
    by (simp add: example_env_def)
  have h2: "newStream (example_env Done) 1 (net_protocol example_network) = Inr 7"
    by (simp add: example_env_def)
  show ?thesis
    using streams_closed [of "example_env Done" example_network old_peer_id example_request
        aborted_signal] example_network_running h1 h2
    by blast
qed

text \<open>
  C4, as amended. \<open>_writeReadMessage\<close> reads one response. When the decoded stream
  delivers a frame, the call completes as the deserialisation of that first frame does,
  whatever would follow it on the stream (further frames, an error, the end): nothing
  after the first frame is read. When the decoded stream ends without a frame, the call
  fails with the error coded \<open>ERR_NO_MESSAGE_RECEIVED\<close>. When the decoded stream throws
  before its first frame, as a stream that is reset or aborted does, the call fails with
  the error thrown. These two and a failing deserialisation are the only failures of the
  call.
\<close>

theorem writeReadMessage_reads_one_response:
  "(\<forall>buf rest. response_frames env stream msg options = Item buf rest \<longrightarrow>
      snd (writeReadMessage env stream msg options) = deserialize env buf \<and>
      (\<forall>m. deserialize env buf = Inr m \<longrightarrow>
         peer_events (fst (writeReadMessage env stream msg options)) =
           closerPeers m @ providerPeers m)) \<and>
   (response_frames env stream msg options = Done \<longrightarrow>
      writeReadMessage env stream msg options = ([], Inl ERR_NO_MESSAGE_RECEIVED)) \<and>
   (\<forall>e. response_frames env stream msg options = Fail e \<longrightarrow>
      writeReadMessage env stream msg options = ([], Inl e)) \<and>
   err_code ERR_NO_MESSAGE_RECEIVED = Some ''ERR_NO_MESSAGE_RECEIVED'' \<and>
   (\<forall>e. snd (writeReadMessage env stream msg options) = Inl e \<longrightarrow>
      response_frames env stream msg options = Done \<and> e = ERR_NO_MESSAGE_RECEIVED \<or>
      response_frames env stream msg options = Fail e \<or>
      (\<exists>buf rest. response_frames env stream msg options = Item buf rest \<and>
         deserialize env buf = Inl e))"
proof -
  have code: "err_code ERR_NO_MESSAGE_RECEIVED = Some ''ERR_NO_MESSAGE_RECEIVED''"
    by (simp add: ERR_NO_MESSAGE_RECEIVED_def)
  have item: "snd (writeReadMessage env stream msg options) = deserialize env buf \<and>
      (\<forall>m. deserialize env buf = Inr m \<longrightarrow>
         peer_events (fst (writeReadMessage env stream msg options)) =
           closerPeers m @ providerPeers m)"
    if "response_frames env stream msg options = Item buf rest" for buf rest
    using that
    by (auto simp: writeReadMessage_def run_defs peer_events_dispatch
        map_append [symmetric] simp del: map_append split: sum.splits)
  have ended: "writeReadMessage env stream msg options = ([], Inl ERR_NO_MESSAGE_RECEIVED)"
    if "response_frames env stream msg options = Done"
    using that by (simp add: writeReadMessage_def run_defs)
  have failed: "writeReadMessage env stream msg options = ([], Inl e)"
    if "response_frames env stream msg options = Fail e" for e
    using that by (simp add: writeReadMessage_def run_defs)
  have only: "response_frames env stream msg options = Done \<and> e = ERR_NO_MESSAGE_RECEIVED \<or>
      response_frames env stream msg options = Fail e \<or>
      (\<exists>buf rest. response_frames env stream msg options = Item buf rest \<and>
         deserialize env buf = Inl e)"
    if r: "snd (writeReadMessage env stream msg options) = Inl e" for e
  proof (cases "response_frames env stream msg options")
    case Done
    then show ?thesis using ended r by simp
  next
    case (Item buf rest)
    then show ?thesis using item [OF Item] r by simp
  next
    case (Fail e')
    then show ?thesis using failed [OF Fail] r by simp
  qed
  show ?thesis
    using code item ended failed only by blast
qed

theorem writeReadMessage_reads_one_response_witness:
  "response_frames (example_env (Item [1] (Fail abortError))) 7 [0] no_signal =
     Item [1] (Fail abortError) \<and>
   snd (writeReadMessage (example_env (Item [1] (Fail abortError))) 7 [0] no_signal) =
     Inr example_response \<and>
   response_frames (example_env Done) 7 [0] no_signal = Done \<and>
   writeReadMessage (example_env Done) 7 [0] no_signal = ([], Inl ERR_NO_MESSAGE_RECEIVED) \<and>
   response_frames (example_env reset_stream) 7 [0] no_signal = reset_stream \<and>
   writeReadMessage (example_env reset_stream) 7 [0] no_signal =
     ([], Inl (Error ''stream reset'' (Some ''ERR_STREAM_RESET'')))"
proof -
  have h1: "response_frames (example_env (Item [1] (Fail abortError))) 7 [0] no_signal =
      Item [1] (Fail abortError)"
    by (simp add: response_frames_def guarded_def example_env_def no_signal_def)
  have h2: "response_frames (example_env Done) 7 [0] no_signal = Done"
    by (simp add: response_frames_def guarded_def example_env_def no_signal_def)
  have h3: "response_frames (example_env reset_stream) 7 [0] no_signal =
      Fail (Error ''stream reset'' (Some ''ERR_STREAM_RESET''))"
    by (simp add: response_frames_def guarded_def example_env_def no_signal_def
        reset_stream_def)
  have d: "deserialize (example_env (Item [1] (Fail abortError))) [1] = Inr example_response"
    by (simp add: example_env_def)
  show ?thesis
    using writeReadMessage_reads_one_response
        [of "example_env (Item [1] (Fail abortError))" 7 "[0]" no_signal]
      writeReadMessage_reads_one_response [of "example_env Done" 7 "[0]" no_signal]
      writeReadMessage_reads_one_response [of "example_env reset_stream" 7 "[0]" no_signal]
      h1 h2 h3 d
    by (simp add: reset_stream_def)
qed

text \<open>
  C4, as claimed, fails: a stream that is reset before its first frame, and a stream whose
  abort signal has fired, yield no frame, and the call fails with the error of the reset
  and with the abort error, neither of which is coded \<open>ERR_NO_MESSAGE_RECEIVED\<close>.
\<close>

theorem no_frame_other_error_counterexample:
  "yields_no_frame (response_frames (example_env reset_stream) 7 [0] no_signal) \<and>
   snd (writeReadMessage (example_env reset_stream) 7 [0] no_signal) =
     Inl (Error ''stream reset'' (Some ''ERR_STREAM_RESET'')) \<and>
   err_code (Error ''stream reset'' (Some ''ERR_STREAM_RESET'')) \<noteq>
     Some ''ERR_NO_MESSAGE_RECEIVED'' \<and>
   yields_no_frame (response_frames (example_env (Item [1] Done)) 7 [0] aborted_signal) \<and>
   snd (writeReadMessage (example_env (Item [1] Done)) 7 [0] aborted_signal) =
     Inl abortError \<and>
   err_code abortError \<noteq> Some ''ERR_NO_MESSAGE_RECEIVED''"
  by (simp add: writeReadMessage_def response_frames_def guarded_def example_env_def
      no_signal_def aborted_signal_def reset_stream_def abortError_def run_defs)

text \<open>
  C6, as amended. For a response that \<open>_writeReadMessage\<close> returns, the \<open>peer\<close> events
  dispatched are the entries of \<open>closerPeers\<close>, in order, followed by the entries of
  \<open>providerPeers\<close>: one event for each entry, so every peer the message mentions gets at
  least one event and nobody else gets any, and a peer mentioned several times gets as
  many events.
\<close>

theorem peer_event_per_entry:
  "snd (writeReadMessage env stream msg options) = Inr m \<longrightarrow>
     peer_events (fst (writeReadMessage env stream msg options)) =
       closerPeers m @ providerPeers m \<and>
     set (map id' (peer_events (fst (writeReadMessage env stream msg options)))) =
       set (spec_peer_events m) \<and>
     length (peer_events (fst (writeReadMessage env stream msg options))) =
       length (closerPeers m) + length (providerPeers m)"
  by (auto simp: writeReadMessage_def run_defs peer_events_dispatch spec_peer_events_def
      map_append [symmetric] simp del: map_append split: sum.splits option.splits)

theorem peer_event_per_entry_witness:
  "snd (writeReadMessage (example_env (Item [1] Done)) 7 [0] no_signal) =
     Inr example_response \<and>
   peer_events (fst (writeReadMessage (example_env (Item [1] Done)) 7 [0] no_signal)) =
     [example_peer, example_peer]"
proof -
  have h: "snd (writeReadMessage (example_env (Item [1] Done)) 7 [0] no_signal) =
      Inr example_response"
    by (simp add: writeReadMessage_def response_frames_def guarded_def example_env_def
        no_signal_def run_defs)
  show ?thesis
    using h peer_event_per_entry [of "example_env (Item [1] Done)" 7 "[0]" no_signal
        example_response]
    by (simp add: example_response_def)
qed

text \<open>
  C6, as claimed, fails: for the response that names one peer both as a closer peer and
  as a provider, two \<open>peer\<close> events are dispatched, where one event per distinct peer
  would be a single event.
\<close>

theorem peer_event_per_distinct_peer_counterexample:
  "snd (writeReadMessage (example_env (Item [1] Done)) 7 [0] no_signal) =
     Inr example_response \<and>
   spec_peer_events example_response = [new_peer_id] \<and>
   map id' (peer_events
     (fst (writeReadMessage (example_env (Item [1] Done)) 7 [0] no_signal))) =
     [new_peer_id, new_peer_id] \<and>
   map id' (peer_events
     (fst (writeReadMessage (example_env (Item [1] Done)) 7 [0] no_signal))) \<noteq>
     spec_peer_events example_response"
  by (simp add: writeReadMessage_def response_frames_def guarded_def example_env_def
      no_signal_def run_defs spec_peer_events_def example_response_def example_peer_def)

section \<open>Properties of the DHT root\<close>

lemma ceil_half: "\<lceil>real_of_int k / 2\<rceil> = (k + 1) div 2"
proof -
  have "\<lceil>real_of_int k / real_of_int 2\<rceil> = - (- k div 2)"
    by (rule ceiling_divide_eq_div)
  then show ?thesis by simp
qed

text \<open>
  C9. The constructor configures the query manager with
  \<open>disjointPaths = ceil(kBucketSize / 2)\<close>, where \<open>kBucketSize\<close> is 20 when the option is
  left out; the default number of disjoint paths is therefore 10. On integers the ceiling
  is \<open>(kBucketSize + 1) div 2\<close>.
\<close>

theorem disjointPaths_half_bucket:
  "disjointPaths (dht_queryManager (KadDHT_constructor init)) =
     \<lceil>real_of_int (dht_kBucketSize (KadDHT_constructor init)) / 2\<rceil> \<and>
   disjointPaths (dht_queryManager (KadDHT_constructor init)) =
     (dht_kBucketSize (KadDHT_constructor init) + 1) div 2 \<and>
   dht_kBucketSize (KadDHT_constructor init) =
     (case kBucketSize init of None \<Rightarrow> 20 | Some k \<Rightarrow> k) \<and>
   dht_kBucketSize (KadDHT_constructor (init\<lparr>kBucketSize := None\<rparr>)) = 20 \<and>
   disjointPaths (dht_queryManager (KadDHT_constructor (init\<lparr>kBucketSize := None\<rparr>))) = 10"
  by (simp add: KadDHT_constructor_def Let_def ceil_half split: option.splits)

text \<open>
  C7. \<open>onPeerConnect\<close> filters the addresses of the peer by mode, removing the public
  ones on a LAN instance and the private ones otherwise, and hands the peer to
  \<open>routingTable.add\<close> if and only if an address is left; it does so once, and an error
  of \<open>routingTable.add\<close> is caught.
\<close>

theorem onPeerConnect_adds_iff_address_survives:
  "(RoutingTableAdd (id' peerData) \<in> set (fst (onPeerConnect kenv dht peerData)) \<longleftrightarrow>
      filter (\<lambda>a. if dht_lan dht then \<not> isPublic kenv a else \<not> isPrivate kenv a)
        (multiaddrs peerData) \<noteq> []) \<and>
   fst (onPeerConnect kenv dht peerData) =
     (if filter (\<lambda>a. if dht_lan dht then \<not> isPublic kenv a else \<not> isPrivate kenv a)
           (multiaddrs peerData) = []
      then [] else [RoutingTableAdd (id' peerData)]) \<and>
   snd (onPeerConnect kenv dht peerData) = Inr () \<and>
   multiaddrs (if dht_lan dht then removePublicAddresses kenv peerData
               else removePrivateAddresses kenv peerData) =
     filter (\<lambda>a. if dht_lan dht then \<not> isPublic kenv a else \<not> isPrivate kenv a)
       (multiaddrs peerData)"
  by (cases "routingTable_add kenv (id' peerData)")
    (auto simp: onPeerConnect_def removePublicAddresses_def removePrivateAddresses_def
      call_routingTable_add_def run_defs Let_def)

theorem onPeerConnect_adds_iff_address_survives_witness:
  "fst (onPeerConnect example_kad_env (KadDHT_constructor example_init) example_peer) = [] \<and>
   fst (onPeerConnect example_kad_env
     (KadDHT_constructor (example_init\<lparr>lan := Some True\<rparr>)) example_peer) =
     [RoutingTableAdd new_peer_id]"
  using onPeerConnect_adds_iff_address_survives
      [of example_peer example_kad_env "KadDHT_constructor example_init"]
    onPeerConnect_adds_iff_address_survives
      [of example_peer example_kad_env
        "KadDHT_constructor (example_init\<lparr>lan := Some True\<rparr>)"]
  by (simp add: example_peer_def example_kad_env_def KadDHT_constructor_def example_init_def
      Let_def)

text \<open>
  C8. \<open>setMode(m)\<close> first unregisters the handler of the protocol. When that succeeds,
  the handler of inbound RPCs is registered again if and only if \<open>m\<close> is \<open>server\<close>, and
  \<open>getMode()\<close> then returns \<open>m\<close>. An instance constructed without \<open>clientMode\<close>, on
  which \<open>setMode\<close> has not been called, is in client mode.
\<close>

theorem setMode_registers_iff_server:
  "(\<exists>rest. fst (snd (setMode kenv dht m)) = Unhandle (dht_protocol dht) # rest) \<and>
   (registrar_unhandle kenv (dht_protocol dht) = Inr () \<longrightarrow>
      fst (snd (setMode kenv dht m)) =
        Unhandle (dht_protocol dht) #
          (if m = server then [Handle (dht_protocol dht) RPC_onIncomingStream] else []) \<and>
      (Handle (dht_protocol dht) RPC_onIncomingStream \<in> set (fst (snd (setMode kenv dht m)))
         \<longleftrightarrow> m = server) \<and>
      getMode (fst (setMode kenv dht m)) = m) \<and>
   getMode (KadDHT_constructor (init\<lparr>clientMode := None\<rparr>)) = client"
  by (cases m)
    (auto simp: setMode_def getMode_def KadDHT_constructor_def Let_def split: sum.splits)

theorem setMode_registers_iff_server_witness:
  "registrar_unhandle example_kad_env (dht_protocol (KadDHT_constructor example_init)) =
     Inr () \<and>
   fst (snd (setMode example_kad_env (KadDHT_constructor example_init) server)) =
     [Unhandle ''/ipfs/kad/1.0.0'', Handle ''/ipfs/kad/1.0.0'' RPC_onIncomingStream] \<and>
   getMode (fst (setMode example_kad_env (KadDHT_constructor example_init) server)) = server \<and>
   fst (snd (setMode example_kad_env (KadDHT_constructor example_init) client)) =
     [Unhandle ''/ipfs/kad/1.0.0''] \<and>
   getMode (fst (setMode example_kad_env (KadDHT_constructor example_init) client)) = client"
proof -
  have h: "registrar_unhandle example_kad_env
      (dht_protocol (KadDHT_constructor example_init)) = Inr ()"
    by (simp add: example_kad_env_def)
  have p: "dht_protocol (KadDHT_constructor example_init) = ''/ipfs/kad/1.0.0''"
    by (simp add: KadDHT_constructor_def example_init_def Let_def)
  show ?thesis
    using h p
      setMode_registers_iff_server [of example_kad_env "KadDHT_constructor example_init" server]
      setMode_registers_iff_server [of example_kad_env "KadDHT_constructor example_init" client]
    by simp
qed

section \<open>Properties of the ping arbitration\<close>

lemma find_key_present:
  "\<forall>x\<in>set xs. f x \<noteq> k \<Longrightarrow> f y = k \<Longrightarrow> find (\<lambda>c. f c = k) (xs @ y # ys) = Some y"
  by (induction xs) simp_all

lemma find_key_absent:
  "\<forall>x\<in>set xs. f x \<noteq> k \<Longrightarrow> find (\<lambda>c. f c = k) xs = None"
  by (induction xs) simp_all

lemma distinct_keys_around:
  "distinct (map f (xs @ (y # ys) @ zs)) \<Longrightarrow> \<forall>x\<in>set (xs @ ys @ zs). f x \<noteq> f y"
  by auto (metis imageI)+

lemma fresh_key_around:
  "k \<notin> f ` set (xs @ (y # ys) @ zs) \<Longrightarrow> f y \<noteq> k \<and> (\<forall>x\<in>set (xs @ ys @ zs). f x \<noteq> k)"
  by (simp add: image_iff) blast

lemma concat_update:
  "i < length tbl \<Longrightarrow>
   concat (tbl[i := b]) = concat (take i tbl) @ b @ concat (drop (Suc i) tbl)"
  by (simp add: upd_conv_take_nth_drop)

lemma concat_nth:
  "i < length tbl \<Longrightarrow>
   concat tbl = concat (take i tbl) @ tbl ! i @ concat (drop (Suc i) tbl)"
  using concat_update [of i tbl "tbl ! i"] by simp

text \<open>The probe succeeds exactly when the dial and the opening of the stream do.\<close>

lemma ping_responds:
  "snd (ping env protocol timeout p) = Inr True \<longleftrightarrow>
     (\<exists>c s. openConnection env p timeout = Inr c \<and> newStream env c protocol = Inr s)"
  by (auto simp: ping_def split: sum.splits)

text \<open>
  C1. A new peer is inserted into a full bucket (of \<open>K \<ge> 1\<close> contacts) of a table
  whose contacts are unique by identifier and which does not hold the new peer. When the
  oldest contact of the bucket responds to the liveness probe, that is when the dial and
  the opening of the DHT protocol stream succeed, then after the arbitration the new peer
  is absent from the table and the old peer is still in it (marked fresh). When the probe
  fails, as it does when the dial rejects, the old peer is absent from the table and the
  new peer is in it. The bucket holds \<open>K\<close> contacts afterwards.
\<close>

theorem ping_arbitration_by_liveness:
  assumes i: "i < length tbl"
    and full: "length (tbl ! i) = K" "0 < K"
    and uniq: "distinct (map contact_id (concat tbl))"
    and new: "contact_id new_peer \<notin> contact_id ` set (concat tbl)"
  shows
    "(snd (ping env protocol timeout (peer (hd (tbl ! i)))) = Inr True \<longrightarrow>
        kb_get (ping_arbitration env protocol timeout now i new_peer tbl)
          (contact_id new_peer) = None \<and>
        kb_get (ping_arbitration env protocol timeout now i new_peer tbl)
          (contact_id (hd (tbl ! i))) = Some ((hd (tbl ! i))\<lparr>lastSeen := now\<rparr>)) \<and>
     (snd (ping env protocol timeout (peer (hd (tbl ! i)))) \<noteq> Inr True \<longrightarrow>
        kb_get (ping_arbitration env protocol timeout now i new_peer tbl)
          (contact_id new_peer) = Some new_peer \<and>
        kb_get (ping_arbitration env protocol timeout now i new_peer tbl)
          (contact_id (hd (tbl ! i))) = None) \<and>
     ((\<exists>e. openConnection env (peer (hd (tbl ! i))) timeout = Inl e) \<longrightarrow>
        snd (ping env protocol timeout (peer (hd (tbl ! i)))) \<noteq> Inr True) \<and>
     ((\<exists>c s. openConnection env (peer (hd (tbl ! i))) timeout = Inr c \<and>
          newStream env c protocol = Inr s) \<longrightarrow>
        snd (ping env protocol timeout (peer (hd (tbl ! i)))) = Inr True) \<and>
     length (ping_arbitration env protocol timeout now i new_peer tbl ! i) = K"
proof -
  obtain oldest rest where b: "tbl ! i = oldest # rest"
    using full by (cases "tbl ! i") auto
  define A where "A = concat (take i tbl)"
  define B where "B = concat (drop (Suc i) tbl)"
  have tbl: "concat tbl = A @ (oldest # rest) @ B"
    using concat_nth [OF i] b by (simp add: A_def B_def)
  have after: "concat (ping_arbitration env protocol timeout now i new_peer tbl) =
      A @ arbitrate_bucket env protocol timeout now new_peer (oldest # rest) @ B"
    using i b by (simp add: ping_arbitration_def concat_update A_def B_def)
  have old: "\<forall>c\<in>set (A @ rest @ B). contact_id c \<noteq> contact_id oldest"
    using distinct_keys_around [of contact_id A oldest rest B] uniq unfolding tbl by simp
  have fresh: "contact_id oldest \<noteq> contact_id new_peer \<and>
      (\<forall>c\<in>set (A @ rest @ B). contact_id c \<noteq> contact_id new_peer)"
    using fresh_key_around [of "contact_id new_peer" contact_id A oldest rest B] new
    unfolding tbl by simp
  have alive: "kb_get (ping_arbitration env protocol timeout now i new_peer tbl)
          (contact_id new_peer) = None \<and>
        kb_get (ping_arbitration env protocol timeout now i new_peer tbl)
          (contact_id oldest) = Some (oldest\<lparr>lastSeen := now\<rparr>)"
    if "snd (ping env protocol timeout (peer oldest)) = Inr True"
  proof -
    have c: "concat (ping_arbitration env protocol timeout now i new_peer tbl) =
        (A @ rest) @ oldest\<lparr>lastSeen := now\<rparr> # B"
      using that by (simp add: after arbitrate_bucket_def)
    have "find (\<lambda>c. contact_id c = contact_id oldest)
        ((A @ rest) @ oldest\<lparr>lastSeen := now\<rparr> # B) = Some (oldest\<lparr>lastSeen := now\<rparr>)"
      by (rule find_key_present) (use old in auto)
    moreover have "find (\<lambda>c. contact_id c = contact_id new_peer)
        ((A @ rest) @ oldest\<lparr>lastSeen := now\<rparr> # B) = None"
      by (rule find_key_absent) (use fresh in auto)
    ultimately show ?thesis
      by (simp add: kb_get_def c)
  qed
  have dead: "kb_get (ping_arbitration env protocol timeout now i new_peer tbl)
          (contact_id new_peer) = Some new_peer \<and>
        kb_get (ping_arbitration env protocol timeout now i new_peer tbl)
          (contact_id oldest) = None"
    if "snd (ping env protocol timeout (peer oldest)) \<noteq> Inr True"
  proof -
    have c: "concat (ping_arbitration env protocol timeout now i new_peer tbl) =
        (A @ rest) @ new_peer # B"
      using that by (simp add: after arbitrate_bucket_def)
    have "find (\<lambda>c. contact_id c = contact_id new_peer) ((A @ rest) @ new_peer # B) =
        Some new_peer"
      by (rule find_key_present) (use fresh in auto)
    moreover have "find (\<lambda>c. contact_id c = contact_id oldest) ((A @ rest) @ new_peer # B) =
        None"
      by (rule find_key_absent) (use old fresh in auto)
    ultimately show ?thesis
      by (simp add: kb_get_def c)
  qed
  have len: "length (ping_arbitration env protocol timeout now i new_peer tbl ! i) = K"
    using i b full by (simp add: ping_arbitration_def arbitrate_bucket_def)
  have rej: "snd (ping env protocol timeout (peer oldest)) \<noteq> Inr True"
    if "\<exists>e. openConnection env (peer oldest) timeout = Inl e"
    using that by (auto simp: ping_responds)
  have acc: "snd (ping env protocol timeout (peer oldest)) = Inr True"
    if "\<exists>c s. openConnection env (peer oldest) timeout = Inr c \<and>
          newStream env c protocol = Inr s"
    using that by (simp add: ping_responds)
  show ?thesis
    using alive dead len rej acc unfolding b by simp
qed

text \<open>
  The two tests of the arbitration: the bucket holds the old peer, the new peer is
  inserted; the old peer is kept when the stream to it can be opened, and evicted for the
  new peer when the dial is refused.
\<close>

theorem ping_arbitration_by_liveness_witness:
  "kb_get (ping_arbitration (example_env Done) ''/ipfs/kad/1.0.0'' no_signal 1 0 new_contact
     [[old_contact]]) (contact_id new_contact) = None \<and>
   kb_get (ping_arbitration (example_env Done) ''/ipfs/kad/1.0.0'' no_signal 1 0 new_contact
     [[old_contact]]) (contact_id old_contact) = Some (old_contact\<lparr>lastSeen := 1\<rparr>) \<and>
   kb_get (ping_arbitration unreachable_env ''/ipfs/kad/1.0.0'' no_signal 1 0 new_contact
     [[old_contact]]) (contact_id new_contact) = Some new_contact \<and>
   kb_get (ping_arbitration unreachable_env ''/ipfs/kad/1.0.0'' no_signal 1 0 new_contact
     [[old_contact]]) (contact_id old_contact) = None"
proof -
  have h: "(0::nat) < length [[old_contact]]" "length ([[old_contact]] ! 0) = 1" "(0::nat) < 1"
    "distinct (map contact_id (concat [[old_contact]]))"
    "contact_id new_contact \<notin> contact_id ` set (concat [[old_contact]])"
    by (simp_all add: old_contact_def new_contact_def)
  have up: "\<exists>c s. openConnection (example_env Done) (peer (hd ([[old_contact]] ! 0)))
        no_signal = Inr c \<and> newStream (example_env Done) c ''/ipfs/kad/1.0.0'' = Inr s"
    by (simp add: example_env_def old_contact_def)
  have down: "\<exists>e. openConnection unreachable_env (peer (hd ([[old_contact]] ! 0)))
        no_signal = Inl e"
    by (simp add: unreachable_env_def)
  show ?thesis
    using ping_arbitration_by_liveness [OF h, of "example_env Done" "''/ipfs/kad/1.0.0''"
        no_signal 1]
      ping_arbitration_by_liveness [OF h, of unreachable_env "''/ipfs/kad/1.0.0''"
        no_signal 1]
      up down
    by simp
qed

end
